theory Spec2Isabelle
  imports Complex_Main "HOL-Library.Sublist"
begin

section \<open>Values that cross the provider boundary\<close>

text \<open>
  The repository forwards three kinds of request to the OpenAI client library. The
  library and the web framework are outside the repository, so the model describes them
  only at the boundary the source touches:
  \<^item> the keyword arguments of an outbound call \<^verbatim>\<open>openai.Completion.create(...)\<close> or
    \<^verbatim>\<open>openai.ChatCompletion.create(...)\<close>, in the order the source writes them;
  \<^item> the response object, of which the source reads \<^verbatim>\<open>choices\<close>, index \<^verbatim>\<open>0\<close>,
    \<^verbatim>\<open>text\<close> and \<^verbatim>\<open>message.content\<close>;
  \<^item> the exceptions it catches and raises.
\<close>

text \<open>
  A keyword value. Python's \<^verbatim>\<open>None\<close> is a value of its own: passing
  \<^verbatim>\<open>max_tokens=None\<close> is not the same call as leaving the keyword out. Floats are only
  carried from the caller to the provider, never computed with.
\<close>

datatype kwarg =
    KNone
  | KStr string
  | KInt int
  | KFloat real
  | KMessages "(string \<times> string) list list"

datatype provider_call =
    Completion_create "(string \<times> kwarg) list"
  | ChatCompletion_create "(string \<times> kwarg) list"

text \<open>
  What an attribute of the response can hold. The source hands the value of
  \<^verbatim>\<open>text\<close> or \<^verbatim>\<open>content\<close> on without looking at it, so a leaf is any value, not
  only a string.
\<close>

datatype pyvalue =
    PyNone
  | PyStr string
  | PyInt int
  | PyFloat real
  | PyBool bool
  | PyList "pyvalue list"
  | PyDict "(string \<times> pyvalue) list"

fun is_PyStr :: "pyvalue \<Rightarrow> bool" where
  "is_PyStr (PyStr s) = True"
| "is_PyStr v = False"

text \<open>
  The response, with every field the source reads possibly missing (\<open>None\<close>: the
  object has no such attribute) and the list of choices possibly empty. A leaf that is
  present holds a value, which may be Python's \<^verbatim>\<open>None\<close> (\<open>Some PyNone\<close>).
\<close>

record chat_message =
  content :: "pyvalue option"

record choice =
  choice_text :: "pyvalue option"
  choice_message :: "chat_message option"

record response =
  choices :: "choice list option"

text \<open>
  Exceptions, each with the text \<^verbatim>\<open>str(e)\<close> gives; an \<^verbatim>\<open>HTTPException\<close> carries
  its status code and detail instead. Only classes below \<^verbatim>\<open>Exception\<close> are modelled.
\<close>

datatype exn =
    APIError string
  | HTTPException nat string
  | IndexError string
  | AttributeError string
  | NameError string
  | OtherException string

text \<open>
  \<^verbatim>\<open>str(e)\<close>, as the f-strings of the source use it. What an \<^verbatim>\<open>HTTPException\<close> prints
  is decided by the web framework's version, so it is a parameter \<open>hs\<close> of the model.
\<close>

type_synonym http_str = "nat \<Rightarrow> string \<Rightarrow> string"

fun py_str :: "http_str \<Rightarrow> exn \<Rightarrow> string" where
  "py_str hs (APIError m) = m"
| "py_str hs (HTTPException s d) = hs s d"
| "py_str hs (IndexError m) = m"
| "py_str hs (AttributeError m) = m"
| "py_str hs (NameError m) = m"
| "py_str hs (OtherException m) = m"

text \<open>\<^verbatim>\<open>isinstance(e, openai.error.APIError)\<close>: the test of the first except clause.\<close>

fun is_APIError :: "exn \<Rightarrow> bool" where
  "is_APIError (APIError m) = True"
| "is_APIError e = False"

text \<open>
  Two renderings for concrete evaluation: the framework's current
  \<^verbatim>\<open>f"{status_code}: {detail}"\<close>, and that of releases without \<^verbatim>\<open>__str__\<close>, where
  an exception built from keyword arguments prints as the empty string.
\<close>

fun show_nat :: "nat \<Rightarrow> string" where
  "show_nat n =
     (if n < 10 then [''0123456789'' ! n]
      else show_nat (n div 10) @ [''0123456789'' ! (n mod 10)])"

declare show_nat.simps [simp del]

definition starlette_str :: http_str where
  "starlette_str s d = show_nat s @ '': '' @ d"

definition legacy_str :: http_str where
  "legacy_str s d = []"

text \<open>
  The provider: one outbound call changes the outside world \<open>'w\<close> and either returns a
  response or raises. The whole expression \<^verbatim>\<open>await openai.X.create(...)\<close> is one step,
  so a client whose \<^verbatim>\<open>create\<close> is not awaitable is a provider that raises
  (\<^verbatim>\<open>TypeError\<close>, an \<open>OtherException\<close>) after the call was made.
\<close>

type_synonym 'w provider = "provider_call \<Rightarrow> 'w \<Rightarrow> (exn + response) \<times> 'w"

text \<open>An observer: a provider whose world is the list of the calls it has received.\<close>

definition logging :: "(provider_call \<Rightarrow> exn + response) \<Rightarrow> provider_call list provider" where
  "logging f c seen = (f c, seen @ [c])"

section \<open>Arguments and their defaults\<close>

text \<open>
  The eight parameters shared by \<^verbatim>\<open>generate_text\<close> and \<^verbatim>\<open>complete_code\<close> at every
  layer. \<open>None\<close> in an optional field is Python's \<^verbatim>\<open>None\<close>.
\<close>

record completion_args =
  prompt :: string
  model :: string
  max_tokens :: "int option"
  temperature :: real
  top_p :: "real option"
  frequency_penalty :: real
  presence_penalty :: real
  stop :: "string option"

text \<open>What a call that passes only \<^verbatim>\<open>prompt\<close> receives from the signature's defaults.\<close>

definition generate_text_defaults :: "string \<Rightarrow> completion_args" where
  "generate_text_defaults p =
     \<lparr>prompt = p, model = ''text-davinci-003'', max_tokens = None, temperature = 0.7,
      top_p = None, frequency_penalty = 0.0, presence_penalty = 0.0, stop = None\<rparr>"

definition complete_code_defaults :: "string \<Rightarrow> completion_args" where
  "complete_code_defaults p =
     \<lparr>prompt = p, model = ''code-davinci-002'', max_tokens = None, temperature = 0.7,
      top_p = None, frequency_penalty = 0.0, presence_penalty = 0.0, stop = None\<rparr>"

definition translate_text_default_model :: string where
  "translate_text_default_model = ''gpt-3.5-turbo''"

section \<open>\<^verbatim>\<open>utils/openai_utils.py\<close>: class OpenAIUtils\<close>

text \<open>A Python value as a keyword value: \<^verbatim>\<open>None\<close> stays \<^verbatim>\<open>None\<close>.\<close>

definition opt_kwarg :: "('a \<Rightarrow> kwarg) \<Rightarrow> 'a option \<Rightarrow> kwarg" where
  "opt_kwarg k v = (case v of None \<Rightarrow> KNone | Some x \<Rightarrow> k x)"

definition OpenAIUtils_generate_text ::
  "http_str \<Rightarrow> 'w provider \<Rightarrow> completion_args \<Rightarrow> 'w \<Rightarrow> (exn + response) \<times> 'w" where
  "OpenAIUtils_generate_text hs provider a w =
     (case provider (Completion_create
              [(''engine'', KStr (model a)),
               (''prompt'', KStr (prompt a)),
               (''max_tokens'', opt_kwarg KInt (max_tokens a)),
               (''temperature'', KFloat (temperature a)),
               (''top_p'', opt_kwarg KFloat (top_p a)),
               (''frequency_penalty'', KFloat (frequency_penalty a)),
               (''presence_penalty'', KFloat (presence_penalty a)),
               (''stop'', opt_kwarg KStr (stop a))]) w of
        (Inr response, w') \<Rightarrow> (Inr response, w')
      | (Inl e, w') \<Rightarrow>
          if is_APIError e
          then (Inl (HTTPException 500 (''OpenAI API Error: '' @ py_str hs e)), w')
          else (Inl (HTTPException 500 (''Error generating text: '' @ py_str hs e)), w'))"

definition OpenAIUtils_translate_text ::
  "http_str \<Rightarrow> 'w provider \<Rightarrow> string \<Rightarrow> string \<Rightarrow> string \<Rightarrow> 'w \<Rightarrow> (exn + response) \<times> 'w" where
  "OpenAIUtils_translate_text hs provider text target_language mdl w =
     (case provider (ChatCompletion_create
              [(''model'', KStr mdl),
               (''messages'',
                  KMessages [[(''role'', ''user''),
                              (''content'',
                                 ''Translate this text into '' @ target_language @ '': '' @ text)]])]) w of
        (Inr response, w') \<Rightarrow> (Inr response, w')
      | (Inl e, w') \<Rightarrow>
          if is_APIError e
          then (Inl (HTTPException 500 (''OpenAI API Error: '' @ py_str hs e)), w')
          else (Inl (HTTPException 500 (''Error translating text: '' @ py_str hs e)), w'))"

definition OpenAIUtils_complete_code ::
  "http_str \<Rightarrow> 'w provider \<Rightarrow> completion_args \<Rightarrow> 'w \<Rightarrow> (exn + response) \<times> 'w" where
  "OpenAIUtils_complete_code hs provider a w =
     (case provider (Completion_create
              [(''engine'', KStr (model a)),
               (''prompt'', KStr (prompt a)),
               (''max_tokens'', opt_kwarg KInt (max_tokens a)),
               (''temperature'', KFloat (temperature a)),
               (''top_p'', opt_kwarg KFloat (top_p a)),
               (''frequency_penalty'', KFloat (frequency_penalty a)),
               (''presence_penalty'', KFloat (presence_penalty a)),
               (''stop'', opt_kwarg KStr (stop a))]) w of
        (Inr response, w') \<Rightarrow> (Inr response, w')
      | (Inl e, w') \<Rightarrow>
          if is_APIError e
          then (Inl (HTTPException 500 (''OpenAI API Error: '' @ py_str hs e)), w')
          else (Inl (HTTPException 500 (''Error completing code: '' @ py_str hs e)), w'))"

section \<open>\<^verbatim>\<open>services/openai_service.py\<close>: class OpenAIService\<close>

text \<open>
  The steps of \<^verbatim>\<open>response.choices[0].text\<close> and
  \<^verbatim>\<open>response.choices[0].message.content\<close>. A missing attribute of the response object
  raises \<^verbatim>\<open>AttributeError\<close> with the attribute's name, index \<^verbatim>\<open>0\<close> of an empty list
  raises \<^verbatim>\<open>IndexError\<close>.
\<close>

definition get_choices :: "response \<Rightarrow> exn + choice list" where
  "get_choices r = (case choices r of None \<Rightarrow> Inl (AttributeError ''choices'') | Some cs \<Rightarrow> Inr cs)"

definition index0 :: "'a list \<Rightarrow> exn + 'a" where
  "index0 xs = (case xs of [] \<Rightarrow> Inl (IndexError ''list index out of range'') | x # _ \<Rightarrow> Inr x)"

definition get_text :: "choice \<Rightarrow> exn + pyvalue" where
  "get_text c = (case choice_text c of None \<Rightarrow> Inl (AttributeError ''text'') | Some t \<Rightarrow> Inr t)"

definition get_message :: "choice \<Rightarrow> exn + chat_message" where
  "get_message c =
     (case choice_message c of None \<Rightarrow> Inl (AttributeError ''message'') | Some m \<Rightarrow> Inr m)"

definition get_content :: "chat_message \<Rightarrow> exn + pyvalue" where
  "get_content m = (case content m of None \<Rightarrow> Inl (AttributeError ''content'') | Some t \<Rightarrow> Inr t)"

text \<open>Sequencing of steps that may raise: the first exception ends the evaluation.\<close>

definition and_then :: "exn + 'a \<Rightarrow> ('a \<Rightarrow> exn + 'b) \<Rightarrow> exn + 'b" where
  "and_then r f = (case r of Inl e \<Rightarrow> Inl e | Inr x \<Rightarrow> f x)"

text \<open>The two expressions the service reads a response with.\<close>

definition response_choices_0_text :: "response \<Rightarrow> exn + pyvalue" where
  "response_choices_0_text response =
     and_then (get_choices response) (\<lambda>cs.
     and_then (index0 cs) (\<lambda>c.
     get_text c))"

definition response_choices_0_message_content :: "response \<Rightarrow> exn + pyvalue" where
  "response_choices_0_message_content response =
     and_then (get_choices response) (\<lambda>cs.
     and_then (index0 cs) (\<lambda>c.
     and_then (get_message c) (\<lambda>m.
     get_content m)))"

text \<open>
  The body of each \<^verbatim>\<open>try\<close> block: the adapter call, then the extraction and the
  dictionary literal. The result dictionary is the list of its items.
\<close>

definition OpenAIService_generate_text_try ::
  "http_str \<Rightarrow> 'w provider \<Rightarrow> completion_args \<Rightarrow> 'w \<Rightarrow> (exn + (string \<times> pyvalue) list) \<times> 'w" where
  "OpenAIService_generate_text_try hs provider a w =
     (case OpenAIUtils_generate_text hs provider a w of
        (r, w') \<Rightarrow>
          (and_then r (\<lambda>response.
             and_then (response_choices_0_text response) (\<lambda>t.
             Inr [(''text'', t)])), w'))"

definition OpenAIService_translate_text_try ::
  "http_str \<Rightarrow> 'w provider \<Rightarrow> string \<Rightarrow> string \<Rightarrow> string \<Rightarrow> 'w
     \<Rightarrow> (exn + (string \<times> pyvalue) list) \<times> 'w" where
  "OpenAIService_translate_text_try hs provider text target_language mdl w =
     (case OpenAIUtils_translate_text hs provider text target_language mdl w of
        (r, w') \<Rightarrow>
          (and_then r (\<lambda>response.
             and_then (response_choices_0_message_content response) (\<lambda>t.
             Inr [(''translation'', t)])), w'))"

definition OpenAIService_complete_code_try ::
  "http_str \<Rightarrow> 'w provider \<Rightarrow> completion_args \<Rightarrow> 'w \<Rightarrow> (exn + (string \<times> pyvalue) list) \<times> 'w" where
  "OpenAIService_complete_code_try hs provider a w =
     (case OpenAIUtils_complete_code hs provider a w of
        (r, w') \<Rightarrow>
          (and_then r (\<lambda>response.
             and_then (response_choices_0_text response) (\<lambda>t.
             Inr [(''code'', t)])), w'))"

text \<open>The operations: the \<^verbatim>\<open>try\<close> body under its two \<^verbatim>\<open>except\<close> clauses.\<close>

definition OpenAIService_generate_text ::
  "http_str \<Rightarrow> 'w provider \<Rightarrow> completion_args \<Rightarrow> 'w \<Rightarrow> (exn + (string \<times> pyvalue) list) \<times> 'w" where
  "OpenAIService_generate_text hs provider a w =
     (case OpenAIService_generate_text_try hs provider a w of
        (Inr d, w') \<Rightarrow> (Inr d, w')
      | (Inl e, w') \<Rightarrow>
          if is_APIError e
          then (Inl (HTTPException 500 (''OpenAI API Error: '' @ py_str hs e)), w')
          else (Inl (HTTPException 500 (''Error generating text: '' @ py_str hs e)), w'))"

definition OpenAIService_translate_text ::
  "http_str \<Rightarrow> 'w provider \<Rightarrow> string \<Rightarrow> string \<Rightarrow> string \<Rightarrow> 'w
     \<Rightarrow> (exn + (string \<times> pyvalue) list) \<times> 'w" where
  "OpenAIService_translate_text hs provider text target_language mdl w =
     (case OpenAIService_translate_text_try hs provider text target_language mdl w of
        (Inr d, w') \<Rightarrow> (Inr d, w')
      | (Inl e, w') \<Rightarrow>
          if is_APIError e
          then (Inl (HTTPException 500 (''OpenAI API Error: '' @ py_str hs e)), w')
          else (Inl (HTTPException 500 (''Error translating text: '' @ py_str hs e)), w'))"

definition OpenAIService_complete_code ::
  "http_str \<Rightarrow> 'w provider \<Rightarrow> completion_args \<Rightarrow> 'w \<Rightarrow> (exn + (string \<times> pyvalue) list) \<times> 'w" where
  "OpenAIService_complete_code hs provider a w =
     (case OpenAIService_complete_code_try hs provider a w of
        (Inr d, w') \<Rightarrow> (Inr d, w')
      | (Inl e, w') \<Rightarrow>
          if is_APIError e
          then (Inl (HTTPException 500 (''OpenAI API Error: '' @ py_str hs e)), w')
          else (Inl (HTTPException 500 (''Error completing code: '' @ py_str hs e)), w'))"

section \<open>\<^verbatim>\<open>routes/api_routes.py\<close>: the route handlers\<close>

text \<open>
  The handlers from their parsed arguments on. \<^verbatim>\<open>JSONResponse(response)\<close> has status
  200 and the dictionary as its body. The module never imports \<^verbatim>\<open>openai\<close>, so when the
  service raises, evaluating the first except clause's \<^verbatim>\<open>openai.error.APIError\<close>
  raises \<^verbatim>\<open>NameError\<close>, and that exception leaves the handler.
\<close>

record json_response =
  status_code :: nat
  body :: "(string \<times> pyvalue) list"

definition openai_not_defined :: string where
  "openai_not_defined = ''name '' @ [CHR 0x27] @ ''openai'' @ [CHR 0x27] @ '' is not defined''"

definition route_generate_text ::
  "http_str \<Rightarrow> 'w provider \<Rightarrow> completion_args \<Rightarrow> 'w \<Rightarrow> (exn + json_response) \<times> 'w" where
  "route_generate_text hs provider a w =
     (case OpenAIService_generate_text hs provider a w of
        (Inr d, w') \<Rightarrow> (Inr \<lparr>status_code = 200, body = d\<rparr>, w')
      | (Inl e, w') \<Rightarrow> (Inl (NameError openai_not_defined), w'))"

definition route_translate_text ::
  "http_str \<Rightarrow> 'w provider \<Rightarrow> string \<Rightarrow> string \<Rightarrow> string \<Rightarrow> 'w \<Rightarrow> (exn + json_response) \<times> 'w" where
  "route_translate_text hs provider text target_language mdl w =
     (case OpenAIService_translate_text hs provider text target_language mdl w of
        (Inr d, w') \<Rightarrow> (Inr \<lparr>status_code = 200, body = d\<rparr>, w')
      | (Inl e, w') \<Rightarrow> (Inl (NameError openai_not_defined), w'))"

definition route_complete_code ::
  "http_str \<Rightarrow> 'w provider \<Rightarrow> completion_args \<Rightarrow> 'w \<Rightarrow> (exn + json_response) \<times> 'w" where
  "route_complete_code hs provider a w =
     (case OpenAIService_complete_code hs provider a w of
        (Inr d, w') \<Rightarrow> (Inr \<lparr>status_code = 200, body = d\<rparr>, w')
      | (Inl e, w') \<Rightarrow> (Inl (NameError openai_not_defined), w'))"

section \<open>Vocabulary of the statements\<close>

text \<open>
  The outbound call one expects from the eight arguments: every keyword present, an unset
  optional one with the value \<^verbatim>\<open>None\<close>.
\<close>

definition completion_call :: "completion_args \<Rightarrow> provider_call" where
  "completion_call a =
     Completion_create
       [(''engine'', KStr (model a)),
        (''prompt'', KStr (prompt a)),
        (''max_tokens'', opt_kwarg KInt (max_tokens a)),
        (''temperature'', KFloat (temperature a)),
        (''top_p'', opt_kwarg KFloat (top_p a)),
        (''frequency_penalty'', KFloat (frequency_penalty a)),
        (''presence_penalty'', KFloat (presence_penalty a)),
        (''stop'', opt_kwarg KStr (stop a))]"

definition translate_call :: "string \<Rightarrow> string \<Rightarrow> string \<Rightarrow> provider_call" where
  "translate_call text target_language mdl =
     ChatCompletion_create
       [(''model'', KStr mdl),
        (''messages'',
           KMessages [[(''role'', ''user''),
                       (''content'',
                          ''Translate this text into '' @ target_language @ '': '' @ text)]])]"

fun call_kwargs :: "provider_call \<Rightarrow> (string \<times> kwarg) list" where
  "call_kwargs (Completion_create kw) = kw"
| "call_kwargs (ChatCompletion_create kw) = kw"

text \<open>The detail the pair of except clauses builds, \<open>label\<close> being the second clause's prefix.\<close>

definition except_detail :: "http_str \<Rightarrow> string \<Rightarrow> exn \<Rightarrow> string" where
  "except_detail hs label e =
     (if is_APIError e then ''OpenAI API Error: '' else label) @ py_str hs e"

text \<open>Concrete providers and responses, for evaluating the operations on examples.\<close>

definition example_response :: response where
  "example_response =
     \<lparr>choices = Some [\<lparr>choice_text = Some (PyStr ''X''),
                        choice_message = Some \<lparr>content = Some (PyStr ''Y'')\<rparr>\<rparr>]\<rparr>"

definition null_leaf_response :: response where
  "null_leaf_response =
     \<lparr>choices = Some [\<lparr>choice_text = Some PyNone,
                        choice_message = Some \<lparr>content = Some PyNone\<rparr>\<rparr>]\<rparr>"

definition empty_response :: response where
  "empty_response = \<lparr>choices = Some []\<rparr>"

definition returning :: "response \<Rightarrow> unit provider" where
  "returning r c w = (Inr r, w)"

definition raising :: "exn \<Rightarrow> unit provider" where
  "raising e c w = (Inl e, w)"

section \<open>The adapter, operation by operation\<close>

lemma utils_generate_text_Inr:
  "OpenAIUtils_generate_text hs provider a w = (Inr r, w') \<longleftrightarrow>
   provider (completion_call a) w = (Inr r, w')"
  by (auto simp: OpenAIUtils_generate_text_def completion_call_def
      split: prod.splits sum.splits if_splits)

lemma utils_generate_text_Inl:
  "OpenAIUtils_generate_text hs provider a w = (Inl e, w') \<longleftrightarrow>
   (\<exists>x. provider (completion_call a) w = (Inl x, w') \<and>
     e = HTTPException 500 (except_detail hs ''Error generating text: '' x))"
  by (auto simp: OpenAIUtils_generate_text_def completion_call_def except_detail_def
      split: prod.splits sum.splits if_splits)

lemma utils_generate_text_world:
  "snd (OpenAIUtils_generate_text hs provider a w) = snd (provider (completion_call a) w)"
  by (auto simp: OpenAIUtils_generate_text_def completion_call_def
      split: prod.splits sum.splits if_splits)

lemma utils_complete_code_Inr:
  "OpenAIUtils_complete_code hs provider a w = (Inr r, w') \<longleftrightarrow>
   provider (completion_call a) w = (Inr r, w')"
  by (auto simp: OpenAIUtils_complete_code_def completion_call_def
      split: prod.splits sum.splits if_splits)

lemma utils_complete_code_Inl:
  "OpenAIUtils_complete_code hs provider a w = (Inl e, w') \<longleftrightarrow>
   (\<exists>x. provider (completion_call a) w = (Inl x, w') \<and>
     e = HTTPException 500 (except_detail hs ''Error completing code: '' x))"
  by (auto simp: OpenAIUtils_complete_code_def completion_call_def except_detail_def
      split: prod.splits sum.splits if_splits)

lemma utils_complete_code_world:
  "snd (OpenAIUtils_complete_code hs provider a w) = snd (provider (completion_call a) w)"
  by (auto simp: OpenAIUtils_complete_code_def completion_call_def
      split: prod.splits sum.splits if_splits)

lemma utils_translate_text_Inr:
  "OpenAIUtils_translate_text hs provider text lang mdl w = (Inr r, w') \<longleftrightarrow>
   provider (translate_call text lang mdl) w = (Inr r, w')"
  by (auto simp: OpenAIUtils_translate_text_def translate_call_def
      split: prod.splits sum.splits if_splits)

lemma utils_translate_text_Inl:
  "OpenAIUtils_translate_text hs provider text lang mdl w = (Inl e, w') \<longleftrightarrow>
   (\<exists>x. provider (translate_call text lang mdl) w = (Inl x, w') \<and>
     e = HTTPException 500 (except_detail hs ''Error translating text: '' x))"
  by (auto simp: OpenAIUtils_translate_text_def translate_call_def except_detail_def
      split: prod.splits sum.splits if_splits)

lemma utils_translate_text_world:
  "snd (OpenAIUtils_translate_text hs provider text lang mdl w) =
   snd (provider (translate_call text lang mdl) w)"
  by (auto simp: OpenAIUtils_translate_text_def translate_call_def
      split: prod.splits sum.splits if_splits)

text \<open>
  C6. For every text and target language, the adapter's translate operation issues one
  chat-style call whose \<^verbatim>\<open>messages\<close> list holds exactly one message, with role
  \<^verbatim>\<open>user\<close> and content \<^verbatim>\<open>Translate this text into {target_language}: {text}\<close>, both
  strings inserted as they are; the response it returns is the one the provider gave to
  that call.
\<close>

theorem translate_text_issues_one_user_message:
  "snd (OpenAIUtils_translate_text hs (logging f) text lang mdl seen) =
     seen @ [ChatCompletion_create
               [(''model'', KStr mdl),
                (''messages'',
                   KMessages [[(''role'', ''user''),
                               (''content'', ''Translate this text into '' @ lang @ '': '' @ text)]])]]
   \<and> (fst (OpenAIUtils_translate_text hs (logging f) text lang mdl seen) = Inr r \<longleftrightarrow>
        f (ChatCompletion_create
             [(''model'', KStr mdl),
              (''messages'',
                 KMessages [[(''role'', ''user''),
                             (''content'', ''Translate this text into '' @ lang @ '': '' @ text)]])])
          = Inr r)"
  by (auto simp: OpenAIUtils_translate_text_def logging_def split: sum.splits)

section \<open>Reading the response\<close>

lemma text_extraction_not_APIError:
  "response_choices_0_text r = Inl e \<Longrightarrow> \<not> is_APIError e"
  by (auto simp: response_choices_0_text_def and_then_def get_choices_def index0_def get_text_def
      split: option.splits list.splits sum.splits)

lemma content_extraction_not_APIError:
  "response_choices_0_message_content r = Inl e \<Longrightarrow> \<not> is_APIError e"
  by (auto simp: response_choices_0_message_content_def and_then_def get_choices_def index0_def
        get_message_def get_content_def
      split: option.splits list.splits sum.splits)

lemma text_extraction_Inr:
  "response_choices_0_text r = Inr t \<longleftrightarrow>
   (\<exists>c cs. choices r = Some (c # cs) \<and> choice_text c = Some t)"
  by (auto simp: response_choices_0_text_def and_then_def get_choices_def index0_def get_text_def
      split: option.splits list.splits sum.splits)

lemma content_extraction_Inr:
  "response_choices_0_message_content r = Inr t \<longleftrightarrow>
   (\<exists>c cs m. choices r = Some (c # cs) \<and> choice_message c = Some m \<and> content m = Some t)"
  by (auto simp: response_choices_0_message_content_def and_then_def get_choices_def index0_def
        get_message_def get_content_def
      split: option.splits list.splits sum.splits)

lemma text_extraction_empty:
  "choices r = Some [] \<Longrightarrow>
   response_choices_0_text r = Inl (IndexError ''list index out of range'')"
  by (simp add: response_choices_0_text_def and_then_def get_choices_def index0_def)

lemma content_extraction_empty:
  "choices r = Some [] \<Longrightarrow>
   response_choices_0_message_content r = Inl (IndexError ''list index out of range'')"
  by (simp add: response_choices_0_message_content_def and_then_def get_choices_def index0_def)

section \<open>The service, operation by operation\<close>

lemma service_generate_text_world:
  "snd (OpenAIService_generate_text hs provider a w) =
   snd (OpenAIUtils_generate_text hs provider a w)"
  by (auto simp: OpenAIService_generate_text_def OpenAIService_generate_text_try_def
      split: prod.splits sum.splits if_splits)

lemma service_generate_text_adapter_raises:
  assumes "OpenAIUtils_generate_text hs provider a w = (Inl e, w')"
  shows "OpenAIService_generate_text hs provider a w =
           (Inl (HTTPException 500 (''Error generating text: '' @ py_str hs e)), w')"
proof -
  from assms obtain d where "e = HTTPException 500 d"
    by (auto simp: utils_generate_text_Inl)
  with assms show ?thesis
    by (simp add: OpenAIService_generate_text_def OpenAIService_generate_text_try_def and_then_def)
qed

lemma service_generate_text_extraction_raises:
  assumes "OpenAIUtils_generate_text hs provider a w = (Inr r, w')"
    and "response_choices_0_text r = Inl e"
  shows "OpenAIService_generate_text hs provider a w =
           (Inl (HTTPException 500 (''Error generating text: '' @ py_str hs e)), w')"
  using assms text_extraction_not_APIError [OF assms(2)]
  by (simp add: OpenAIService_generate_text_def OpenAIService_generate_text_try_def and_then_def)

lemma service_generate_text_returns:
  assumes "OpenAIUtils_generate_text hs provider a w = (Inr r, w')"
    and "response_choices_0_text r = Inr t"
  shows "OpenAIService_generate_text hs provider a w = (Inr [(''text'', t)], w')"
  using assms
  by (simp add: OpenAIService_generate_text_def OpenAIService_generate_text_try_def and_then_def)

lemma service_generate_text_try_not_APIError:
  assumes "OpenAIService_generate_text_try hs provider a w = (Inl e, w')"
  shows "\<not> is_APIError e"
proof (cases "OpenAIUtils_generate_text hs provider a w")
  case (Pair out w'')
  show ?thesis
  proof (cases out)
    case (Inl x)
    with Pair obtain d where "x = HTTPException 500 d"
      by (auto simp: utils_generate_text_Inl)
    with assms Pair Inl show ?thesis
      by (auto simp: OpenAIService_generate_text_try_def and_then_def)
  next
    case (Inr r)
    with assms Pair have "and_then (response_choices_0_text r) (\<lambda>t. Inr [(''text'', t)]) = Inl e"
      by (auto simp: OpenAIService_generate_text_try_def and_then_def)
    then have "response_choices_0_text r = Inl e"
      by (auto simp: and_then_def split: sum.splits)
    then show ?thesis by (rule text_extraction_not_APIError)
  qed
qed

lemma service_generate_text_cases:
  obtains (returns) r t w' where
      "OpenAIUtils_generate_text hs provider a w = (Inr r, w')"
      "response_choices_0_text r = Inr t"
      "OpenAIService_generate_text hs provider a w = (Inr [(''text'', t)], w')"
  | (extraction) r e w' where
      "OpenAIUtils_generate_text hs provider a w = (Inr r, w')"
      "response_choices_0_text r = Inl e"
      "OpenAIService_generate_text hs provider a w =
         (Inl (HTTPException 500 (''Error generating text: '' @ py_str hs e)), w')"
  | (adapter) e w' where
      "OpenAIUtils_generate_text hs provider a w = (Inl e, w')"
      "OpenAIService_generate_text hs provider a w =
         (Inl (HTTPException 500 (''Error generating text: '' @ py_str hs e)), w')"
proof (cases "OpenAIUtils_generate_text hs provider a w")
  case (Pair out w')
  show ?thesis
  proof (cases out)
    case (Inl e)
    with Pair have u: "OpenAIUtils_generate_text hs provider a w = (Inl e, w')"
      by simp
    show ?thesis
      by (rule adapter [OF u service_generate_text_adapter_raises [OF u]])
  next
    case (Inr r)
    with Pair have u: "OpenAIUtils_generate_text hs provider a w = (Inr r, w')"
      by simp
    show ?thesis
    proof (cases "response_choices_0_text r")
      case (Inl e)
      show ?thesis
        by (rule extraction [OF u Inl service_generate_text_extraction_raises [OF u Inl]])
    next
      case x: (Inr t)
      show ?thesis
        by (rule returns [OF u x service_generate_text_returns [OF u x]])
    qed
  qed
qed

lemma service_translate_text_world:
  "snd (OpenAIService_translate_text hs provider text lang mdl w) =
   snd (OpenAIUtils_translate_text hs provider text lang mdl w)"
  by (auto simp: OpenAIService_translate_text_def OpenAIService_translate_text_try_def
      split: prod.splits sum.splits if_splits)

lemma service_translate_text_adapter_raises:
  assumes "OpenAIUtils_translate_text hs provider text lang mdl w = (Inl e, w')"
  shows "OpenAIService_translate_text hs provider text lang mdl w =
           (Inl (HTTPException 500 (''Error translating text: '' @ py_str hs e)), w')"
proof -
  from assms obtain d where "e = HTTPException 500 d"
    by (auto simp: utils_translate_text_Inl)
  with assms show ?thesis
    by (simp add: OpenAIService_translate_text_def OpenAIService_translate_text_try_def and_then_def)
qed

lemma service_translate_text_extraction_raises:
  assumes "OpenAIUtils_translate_text hs provider text lang mdl w = (Inr r, w')"
    and "response_choices_0_message_content r = Inl e"
  shows "OpenAIService_translate_text hs provider text lang mdl w =
           (Inl (HTTPException 500 (''Error translating text: '' @ py_str hs e)), w')"
  using assms content_extraction_not_APIError [OF assms(2)]
  by (simp add: OpenAIService_translate_text_def OpenAIService_translate_text_try_def and_then_def)

lemma service_translate_text_returns:
  assumes "OpenAIUtils_translate_text hs provider text lang mdl w = (Inr r, w')"
    and "response_choices_0_message_content r = Inr t"
  shows "OpenAIService_translate_text hs provider text lang mdl w = (Inr [(''translation'', t)], w')"
  using assms
  by (simp add: OpenAIService_translate_text_def OpenAIService_translate_text_try_def and_then_def)

lemma service_translate_text_try_not_APIError:
  assumes "OpenAIService_translate_text_try hs provider text lang mdl w = (Inl e, w')"
  shows "\<not> is_APIError e"
proof (cases "OpenAIUtils_translate_text hs provider text lang mdl w")
  case (Pair out w'')
  show ?thesis
  proof (cases out)
    case (Inl x)
    with Pair obtain d where "x = HTTPException 500 d"
      by (auto simp: utils_translate_text_Inl)
    with assms Pair Inl show ?thesis
      by (auto simp: OpenAIService_translate_text_try_def and_then_def)
  next
    case (Inr r)
    with assms Pair have "and_then (response_choices_0_message_content r) (\<lambda>t. Inr [(''translation'', t)]) = Inl e"
      by (auto simp: OpenAIService_translate_text_try_def and_then_def)
    then have "response_choices_0_message_content r = Inl e"
      by (auto simp: and_then_def split: sum.splits)
    then show ?thesis by (rule content_extraction_not_APIError)
  qed
qed

lemma service_translate_text_cases:
  obtains (returns) r t w' where
      "OpenAIUtils_translate_text hs provider text lang mdl w = (Inr r, w')"
      "response_choices_0_message_content r = Inr t"
      "OpenAIService_translate_text hs provider text lang mdl w = (Inr [(''translation'', t)], w')"
  | (extraction) r e w' where
      "OpenAIUtils_translate_text hs provider text lang mdl w = (Inr r, w')"
      "response_choices_0_message_content r = Inl e"
      "OpenAIService_translate_text hs provider text lang mdl w =
         (Inl (HTTPException 500 (''Error translating text: '' @ py_str hs e)), w')"
  | (adapter) e w' where
      "OpenAIUtils_translate_text hs provider text lang mdl w = (Inl e, w')"
      "OpenAIService_translate_text hs provider text lang mdl w =
         (Inl (HTTPException 500 (''Error translating text: '' @ py_str hs e)), w')"
proof (cases "OpenAIUtils_translate_text hs provider text lang mdl w")
  case (Pair out w')
  show ?thesis
  proof (cases out)
    case (Inl e)
    with Pair have u: "OpenAIUtils_translate_text hs provider text lang mdl w = (Inl e, w')"
      by simp
    show ?thesis
      by (rule adapter [OF u service_translate_text_adapter_raises [OF u]])
  next
    case (Inr r)
    with Pair have u: "OpenAIUtils_translate_text hs provider text lang mdl w = (Inr r, w')"
      by simp
    show ?thesis
    proof (cases "response_choices_0_message_content r")
      case (Inl e)
      show ?thesis
        by (rule extraction [OF u Inl service_translate_text_extraction_raises [OF u Inl]])
    next
      case x: (Inr t)
      show ?thesis
        by (rule returns [OF u x service_translate_text_returns [OF u x]])
    qed
  qed
qed

lemma service_complete_code_world:
  "snd (OpenAIService_complete_code hs provider a w) =
   snd (OpenAIUtils_complete_code hs provider a w)"
  by (auto simp: OpenAIService_complete_code_def OpenAIService_complete_code_try_def
      split: prod.splits sum.splits if_splits)

lemma service_complete_code_adapter_raises:
  assumes "OpenAIUtils_complete_code hs provider a w = (Inl e, w')"
  shows "OpenAIService_complete_code hs provider a w =
           (Inl (HTTPException 500 (''Error completing code: '' @ py_str hs e)), w')"
proof -
  from assms obtain d where "e = HTTPException 500 d"
    by (auto simp: utils_complete_code_Inl)
  with assms show ?thesis
    by (simp add: OpenAIService_complete_code_def OpenAIService_complete_code_try_def and_then_def)
qed

lemma service_complete_code_extraction_raises:
  assumes "OpenAIUtils_complete_code hs provider a w = (Inr r, w')"
    and "response_choices_0_text r = Inl e"
  shows "OpenAIService_complete_code hs provider a w =
           (Inl (HTTPException 500 (''Error completing code: '' @ py_str hs e)), w')"
  using assms text_extraction_not_APIError [OF assms(2)]
  by (simp add: OpenAIService_complete_code_def OpenAIService_complete_code_try_def and_then_def)

lemma service_complete_code_returns:
  assumes "OpenAIUtils_complete_code hs provider a w = (Inr r, w')"
    and "response_choices_0_text r = Inr t"
  shows "OpenAIService_complete_code hs provider a w = (Inr [(''code'', t)], w')"
  using assms
  by (simp add: OpenAIService_complete_code_def OpenAIService_complete_code_try_def and_then_def)

lemma service_complete_code_try_not_APIError:
  assumes "OpenAIService_complete_code_try hs provider a w = (Inl e, w')"
  shows "\<not> is_APIError e"
proof (cases "OpenAIUtils_complete_code hs provider a w")
  case (Pair out w'')
  show ?thesis
  proof (cases out)
    case (Inl x)
    with Pair obtain d where "x = HTTPException 500 d"
      by (auto simp: utils_complete_code_Inl)
    with assms Pair Inl show ?thesis
      by (auto simp: OpenAIService_complete_code_try_def and_then_def)
  next
    case (Inr r)
    with assms Pair have "and_then (response_choices_0_text r) (\<lambda>t. Inr [(''code'', t)]) = Inl e"
      by (auto simp: OpenAIService_complete_code_try_def and_then_def)
    then have "response_choices_0_text r = Inl e"
      by (auto simp: and_then_def split: sum.splits)
    then show ?thesis by (rule text_extraction_not_APIError)
  qed
qed

lemma service_complete_code_cases:
  obtains (returns) r t w' where
      "OpenAIUtils_complete_code hs provider a w = (Inr r, w')"
      "response_choices_0_text r = Inr t"
      "OpenAIService_complete_code hs provider a w = (Inr [(''code'', t)], w')"
  | (extraction) r e w' where
      "OpenAIUtils_complete_code hs provider a w = (Inr r, w')"
      "response_choices_0_text r = Inl e"
      "OpenAIService_complete_code hs provider a w =
         (Inl (HTTPException 500 (''Error completing code: '' @ py_str hs e)), w')"
  | (adapter) e w' where
      "OpenAIUtils_complete_code hs provider a w = (Inl e, w')"
      "OpenAIService_complete_code hs provider a w =
         (Inl (HTTPException 500 (''Error completing code: '' @ py_str hs e)), w')"
proof (cases "OpenAIUtils_complete_code hs provider a w")
  case (Pair out w')
  show ?thesis
  proof (cases out)
    case (Inl e)
    with Pair have u: "OpenAIUtils_complete_code hs provider a w = (Inl e, w')"
      by simp
    show ?thesis
      by (rule adapter [OF u service_complete_code_adapter_raises [OF u]])
  next
    case (Inr r)
    with Pair have u: "OpenAIUtils_complete_code hs provider a w = (Inr r, w')"
      by simp
    show ?thesis
    proof (cases "response_choices_0_text r")
      case (Inl e)
      show ?thesis
        by (rule extraction [OF u Inl service_complete_code_extraction_raises [OF u Inl]])
    next
      case x: (Inr t)
      show ?thesis
        by (rule returns [OF u x service_complete_code_returns [OF u x]])
    qed
  qed
qed

section \<open>The operations on the example providers\<close>

lemma utils_generate_text_returning:
  "OpenAIUtils_generate_text hs (returning r) a w = (Inr r, w)"
  by (simp add: OpenAIUtils_generate_text_def returning_def)

lemma utils_complete_code_returning:
  "OpenAIUtils_complete_code hs (returning r) a w = (Inr r, w)"
  by (simp add: OpenAIUtils_complete_code_def returning_def)

lemma utils_translate_text_returning:
  "OpenAIUtils_translate_text hs (returning r) text lang mdl w = (Inr r, w)"
  by (simp add: OpenAIUtils_translate_text_def returning_def)

lemma utils_generate_text_raising:
  "OpenAIUtils_generate_text hs (raising x) a w =
     (Inl (HTTPException 500 (except_detail hs ''Error generating text: '' x)), w)"
  by (simp add: OpenAIUtils_generate_text_def raising_def except_detail_def)

lemma utils_complete_code_raising:
  "OpenAIUtils_complete_code hs (raising x) a w =
     (Inl (HTTPException 500 (except_detail hs ''Error completing code: '' x)), w)"
  by (simp add: OpenAIUtils_complete_code_def raising_def except_detail_def)

lemma utils_translate_text_raising:
  "OpenAIUtils_translate_text hs (raising x) text lang mdl w =
     (Inl (HTTPException 500 (except_detail hs ''Error translating text: '' x)), w)"
  by (simp add: OpenAIUtils_translate_text_def raising_def except_detail_def)

lemma choices_empty_response: "choices empty_response = Some []"
  by (simp add: empty_response_def)

lemma example_text: "response_choices_0_text example_response = Inr (PyStr ''X'')"
  by (simp add: text_extraction_Inr example_response_def)

lemma example_content: "response_choices_0_message_content example_response = Inr (PyStr ''Y'')"
  by (simp add: content_extraction_Inr example_response_def)

lemma service_generate_text_logging:
  "snd (OpenAIService_generate_text hs (logging f) a seen) = seen @ [completion_call a]"
  by (simp add: service_generate_text_world utils_generate_text_world logging_def)

lemma service_translate_text_logging:
  "snd (OpenAIService_translate_text hs (logging f) text lang mdl seen) =
     seen @ [translate_call text lang mdl]"
  by (simp add: service_translate_text_world utils_translate_text_world logging_def)

lemma service_complete_code_logging:
  "snd (OpenAIService_complete_code hs (logging f) a seen) = seen @ [completion_call a]"
  by (simp add: service_complete_code_world utils_complete_code_world logging_def)

lemma empty_text: "response_choices_0_text empty_response = Inl (IndexError ''list index out of range'')"
  by (rule text_extraction_empty [OF choices_empty_response])

lemma empty_content:
  "response_choices_0_message_content empty_response = Inl (IndexError ''list index out of range'')"
  by (rule content_extraction_empty [OF choices_empty_response])

lemma try_generate_text_raising:
  "OpenAIService_generate_text_try hs (raising x) a w =
     (Inl (HTTPException 500 (except_detail hs ''Error generating text: '' x)), w)"
  by (simp add: OpenAIService_generate_text_try_def utils_generate_text_raising and_then_def)

lemma try_translate_text_raising:
  "OpenAIService_translate_text_try hs (raising x) text lang mdl w =
     (Inl (HTTPException 500 (except_detail hs ''Error translating text: '' x)), w)"
  by (simp add: OpenAIService_translate_text_try_def utils_translate_text_raising and_then_def)

lemma try_complete_code_raising:
  "OpenAIService_complete_code_try hs (raising x) a w =
     (Inl (HTTPException 500 (except_detail hs ''Error completing code: '' x)), w)"
  by (simp add: OpenAIService_complete_code_try_def utils_complete_code_raising and_then_def)

lemma service_generate_text_raising:
  "OpenAIService_generate_text hs (raising x) a w =
     (Inl (HTTPException 500 (''Error generating text: '' @
        hs 500 (except_detail hs ''Error generating text: '' x))), w)"
  using service_generate_text_adapter_raises [OF utils_generate_text_raising] by simp

lemma service_translate_text_raising:
  "OpenAIService_translate_text hs (raising x) text lang mdl w =
     (Inl (HTTPException 500 (''Error translating text: '' @
        hs 500 (except_detail hs ''Error translating text: '' x))), w)"
  using service_translate_text_adapter_raises [OF utils_translate_text_raising] by simp

lemma service_complete_code_raising:
  "OpenAIService_complete_code hs (raising x) a w =
     (Inl (HTTPException 500 (''Error completing code: '' @
        hs 500 (except_detail hs ''Error completing code: '' x))), w)"
  using service_complete_code_adapter_raises [OF utils_complete_code_raising] by simp

section \<open>Normal results\<close>

text \<open>
  C4. For every argument tuple, when the adapter returns a response whose
  \<^verbatim>\<open>choices[0].text\<close> is the string \<open>X\<close>, \<^verbatim>\<open>generate_text\<close> of the service returns
  exactly the one-item dictionary \<^verbatim>\<open>{"text": X}\<close> and \<^verbatim>\<open>complete_code\<close> exactly
  \<^verbatim>\<open>{"code": X}\<close>, with \<open>X\<close> unchanged. The further choices \<open>cs\<close> and the other
  fields of the first choice are arbitrary.
\<close>

theorem generate_and_complete_return_first_choice_text:
  "(OpenAIUtils_generate_text hs provider a w = (Inr r, w') \<and> choices r = Some (c # cs) \<and>
      choice_text c = Some (PyStr X) \<longrightarrow>
      OpenAIService_generate_text hs provider a w = (Inr [(''text'', PyStr X)], w')) \<and>
   (OpenAIUtils_complete_code hs provider a w = (Inr r, w') \<and> choices r = Some (c # cs) \<and>
      choice_text c = Some (PyStr X) \<longrightarrow>
      OpenAIService_complete_code hs provider a w = (Inr [(''code'', PyStr X)], w'))"
proof (intro conjI impI)
  assume h: "OpenAIUtils_generate_text hs provider a w = (Inr r, w') \<and>
    choices r = Some (c # cs) \<and> choice_text c = Some (PyStr X)"
  then have "response_choices_0_text r = Inr (PyStr X)"
    by (auto simp: text_extraction_Inr)
  with h show "OpenAIService_generate_text hs provider a w = (Inr [(''text'', PyStr X)], w')"
    by (simp add: service_generate_text_returns)
next
  assume h: "OpenAIUtils_complete_code hs provider a w = (Inr r, w') \<and>
    choices r = Some (c # cs) \<and> choice_text c = Some (PyStr X)"
  then have "response_choices_0_text r = Inr (PyStr X)"
    by (auto simp: text_extraction_Inr)
  with h show "OpenAIService_complete_code hs provider a w = (Inr [(''code'', PyStr X)], w')"
    by (simp add: service_complete_code_returns)
qed

theorem generate_and_complete_return_first_choice_text_witness:
  "OpenAIService_generate_text starlette_str (returning example_response)
      (generate_text_defaults ''Write a short sentence.'') () = (Inr [(''text'', PyStr ''X'')], ()) \<and>
   OpenAIService_complete_code starlette_str (returning example_response)
      (complete_code_defaults ''print('') () = (Inr [(''code'', PyStr ''X'')], ())"
proof -
  let ?c = "\<lparr>choice_text = Some (PyStr ''X''), choice_message = Some \<lparr>content = Some (PyStr ''Y'')\<rparr>\<rparr>"
  have r: "choices example_response = Some (?c # []) \<and> choice_text ?c = Some (PyStr ''X'')"
    by (simp add: example_response_def)
  have g: "OpenAIUtils_generate_text starlette_str (returning example_response)
      (generate_text_defaults ''Write a short sentence.'') () = (Inr example_response, ())"
    by (rule utils_generate_text_returning)
  have k: "OpenAIUtils_complete_code starlette_str (returning example_response)
      (complete_code_defaults ''print('') () = (Inr example_response, ())"
    by (rule utils_complete_code_returning)
  from generate_and_complete_return_first_choice_text [THEN conjunct1, THEN mp, OF conjI [OF g r]]
    generate_and_complete_return_first_choice_text [THEN conjunct2, THEN mp, OF conjI [OF k r]]
  show ?thesis by (rule conjI)
qed

text \<open>
  C5. For every text, target language and model, when the adapter returns a response
  whose \<^verbatim>\<open>choices[0].message.content\<close> is the string \<open>Y\<close>, \<^verbatim>\<open>translate_text\<close> of
  the service returns exactly \<^verbatim>\<open>{"translation": Y}\<close>. Nothing else of the response is
  constrained: the first choice's \<^verbatim>\<open>text\<close> and the further choices \<open>cs\<close> are
  arbitrary, so the result depends on no other field.
\<close>

theorem translate_text_returns_first_choice_content:
  assumes "OpenAIUtils_translate_text hs provider text lang mdl w = (Inr r, w')"
    and "choices r = Some (c # cs)"
    and "choice_message c = Some m"
    and "content m = Some (PyStr Y)"
  shows "OpenAIService_translate_text hs provider text lang mdl w = (Inr [(''translation'', PyStr Y)], w')"
proof -
  from assms(2-4) have "response_choices_0_message_content r = Inr (PyStr Y)"
    by (auto simp: content_extraction_Inr)
  with assms(1) show ?thesis
    by (rule service_translate_text_returns)
qed

theorem translate_text_returns_first_choice_content_witness:
  "OpenAIService_translate_text starlette_str (returning example_response)
      ''This is a translation.'' ''fr'' translate_text_default_model () =
     (Inr [(''translation'', PyStr ''Y'')], ())"
proof -
  let ?m = "\<lparr>content = Some (PyStr ''Y'')\<rparr>"
  let ?c = "\<lparr>choice_text = Some (PyStr ''X''), choice_message = Some ?m\<rparr>"
  have r: "choices example_response = Some (?c # [])"
    by (simp add: example_response_def)
  have c: "choice_message ?c = Some ?m" by simp
  have m: "content ?m = Some (PyStr ''Y'')" by simp
  show ?thesis
    by (rule translate_text_returns_first_choice_content
          [OF utils_translate_text_returning r c m])
qed

text \<open>
  C9, as stated, fails on the value: when the first choice's \<^verbatim>\<open>message.content\<close> is
  present and holds \<^verbatim>\<open>None\<close>, \<^verbatim>\<open>translate_text\<close> returns normally with
  \<^verbatim>\<open>{"translation": None}\<close>, a dictionary whose one value is not a string.
\<close>

theorem translate_text_returns_a_null_content:
  "OpenAIService_translate_text starlette_str (returning null_leaf_response)
      ''This is a translation.'' ''fr'' translate_text_default_model () =
     (Inr [(''translation'', PyNone)], ()) \<and>
   \<not> is_PyStr PyNone"
proof -
  have "response_choices_0_message_content null_leaf_response = Inr PyNone"
    by (simp add: content_extraction_Inr null_leaf_response_def)
  from service_translate_text_returns [OF utils_translate_text_returning this]
  show ?thesis by simp
qed

text \<open>
  C9, amended. Every normal result of a service operation is a dictionary with exactly one
  item: key \<^verbatim>\<open>text\<close> for \<^verbatim>\<open>generate_text\<close>, \<^verbatim>\<open>translation\<close> for
  \<^verbatim>\<open>translate_text\<close>, \<^verbatim>\<open>code\<close> for \<^verbatim>\<open>complete_code\<close>. Its value is the value
  \<open>v\<close> that the response returned by the adapter holds at \<^verbatim>\<open>choices[0].text\<close>
  (\<^verbatim>\<open>choices[0].message.content\<close> for the translation), handed on unchecked: a string
  exactly when the provider's field holds a string.
\<close>

theorem successful_results_are_single_key:
  "(OpenAIService_generate_text hs provider a w = (Inr d, w') \<longrightarrow>
      (\<exists>r c cs v. OpenAIUtils_generate_text hs provider a w = (Inr r, w') \<and>
         choices r = Some (c # cs) \<and> choice_text c = Some v \<and> d = [(''text'', v)])) \<and>
   (OpenAIService_translate_text hs provider text lang mdl w = (Inr d, w') \<longrightarrow>
      (\<exists>r c cs m v. OpenAIUtils_translate_text hs provider text lang mdl w = (Inr r, w') \<and>
         choices r = Some (c # cs) \<and> choice_message c = Some m \<and> content m = Some v \<and>
         d = [(''translation'', v)])) \<and>
   (OpenAIService_complete_code hs provider a w = (Inr d, w') \<longrightarrow>
      (\<exists>r c cs v. OpenAIUtils_complete_code hs provider a w = (Inr r, w') \<and>
         choices r = Some (c # cs) \<and> choice_text c = Some v \<and> d = [(''code'', v)]))"
proof (intro conjI impI)
  assume h: "OpenAIService_generate_text hs provider a w = (Inr d, w')"
  show "\<exists>r c cs v. OpenAIUtils_generate_text hs provider a w = (Inr r, w') \<and>
         choices r = Some (c # cs) \<and> choice_text c = Some v \<and> d = [(''text'', v)]"
  proof (cases rule: service_generate_text_cases [of hs provider a w])
    case (returns r t u)
    with h have "u = w'" and "d = [(''text'', t)]" by simp_all
    with returns show ?thesis by (auto simp: text_extraction_Inr)
  next
    case (extraction r e u)
    with h show ?thesis by simp
  next
    case (adapter e u)
    with h show ?thesis by simp
  qed
next
  assume h: "OpenAIService_translate_text hs provider text lang mdl w = (Inr d, w')"
  show "\<exists>r c cs m v. OpenAIUtils_translate_text hs provider text lang mdl w = (Inr r, w') \<and>
         choices r = Some (c # cs) \<and> choice_message c = Some m \<and> content m = Some v \<and>
         d = [(''translation'', v)]"
  proof (cases rule: service_translate_text_cases [of hs provider "text" lang mdl w])
    case (returns r t u)
    with h have "u = w'" and "d = [(''translation'', t)]" by simp_all
    with returns show ?thesis by (auto simp: content_extraction_Inr)
  next
    case (extraction r e u)
    with h show ?thesis by simp
  next
    case (adapter e u)
    with h show ?thesis by simp
  qed
next
  assume h: "OpenAIService_complete_code hs provider a w = (Inr d, w')"
  show "\<exists>r c cs v. OpenAIUtils_complete_code hs provider a w = (Inr r, w') \<and>
         choices r = Some (c # cs) \<and> choice_text c = Some v \<and> d = [(''code'', v)]"
  proof (cases rule: service_complete_code_cases [of hs provider a w])
    case (returns r t u)
    with h have "u = w'" and "d = [(''code'', t)]" by simp_all
    with returns show ?thesis by (auto simp: text_extraction_Inr)
  next
    case (extraction r e u)
    with h show ?thesis by simp
  next
    case (adapter e u)
    with h show ?thesis by simp
  qed
qed

text \<open>
  The three hypotheses hold at concrete inputs: a string leaf for \<^verbatim>\<open>generate_text\<close>
  and \<^verbatim>\<open>complete_code\<close>, a \<^verbatim>\<open>None\<close> leaf for \<^verbatim>\<open>translate_text\<close>.
\<close>

theorem successful_results_are_single_key_witness:
  "OpenAIService_generate_text starlette_str (returning example_response)
        (generate_text_defaults ''Write a short sentence.'') () =
      (Inr [(''text'', PyStr ''X'')], ()) \<and>
   OpenAIService_translate_text starlette_str (returning null_leaf_response)
        ''This is a translation.'' ''fr'' translate_text_default_model () =
      (Inr [(''translation'', PyNone)], ()) \<and>
   OpenAIService_complete_code starlette_str (returning example_response)
        (complete_code_defaults ''print('') () = (Inr [(''code'', PyStr ''X'')], ()) \<and>
   (\<exists>r c cs v. OpenAIUtils_generate_text starlette_str (returning example_response)
        (generate_text_defaults ''Write a short sentence.'') () = (Inr r, ()) \<and>
      choices r = Some (c # cs) \<and> choice_text c = Some v \<and>
      [(''text'', PyStr ''X'')] = [(''text'', v)]) \<and>
   (\<exists>r c cs m v. OpenAIUtils_translate_text starlette_str (returning null_leaf_response)
        ''This is a translation.'' ''fr'' translate_text_default_model () = (Inr r, ()) \<and>
      choices r = Some (c # cs) \<and> choice_message c = Some m \<and> content m = Some v \<and>
      [(''translation'', PyNone)] = [(''translation'', v)]) \<and>
   (\<exists>r c cs v. OpenAIUtils_complete_code starlette_str (returning example_response)
        (complete_code_defaults ''print('') () = (Inr r, ()) \<and>
      choices r = Some (c # cs) \<and> choice_text c = Some v \<and>
      [(''code'', PyStr ''X'')] = [(''code'', v)])"
proof -
  have n: "response_choices_0_message_content null_leaf_response = Inr PyNone"
    by (simp add: content_extraction_Inr null_leaf_response_def)
  have g: "OpenAIService_generate_text starlette_str (returning example_response)
        (generate_text_defaults ''Write a short sentence.'') () =
        (Inr [(''text'', PyStr ''X'')], ())"
    by (rule service_generate_text_returns [OF utils_generate_text_returning example_text])
  have t: "OpenAIService_translate_text starlette_str (returning null_leaf_response)
        ''This is a translation.'' ''fr'' translate_text_default_model () =
        (Inr [(''translation'', PyNone)], ())"
    by (rule service_translate_text_returns [OF utils_translate_text_returning n])
  have k: "OpenAIService_complete_code starlette_str (returning example_response)
        (complete_code_defaults ''print('') () = (Inr [(''code'', PyStr ''X'')], ())"
    by (rule service_complete_code_returns [OF utils_complete_code_returning example_text])
  from g t k
    successful_results_are_single_key [THEN conjunct1, THEN mp, OF g]
    successful_results_are_single_key [THEN conjunct2, THEN conjunct1, THEN mp, OF t]
    successful_results_are_single_key [THEN conjunct2, THEN conjunct2, THEN mp, OF k]
  show ?thesis by (intro conjI)
qed

section \<open>Failures\<close>

text \<open>
  C3. When the response the adapter returns has an empty \<^verbatim>\<open>choices\<close> list, each of the
  three service operations fails with an \<^verbatim>\<open>HTTPException\<close> of status 500 whose detail
  is the operation's generic prefix followed by the text of the \<^verbatim>\<open>IndexError\<close>; the
  index fault does not leave the operation.
\<close>

theorem empty_choices_fail_with_generic_500:
  "(OpenAIUtils_generate_text hs provider a w = (Inr r, w') \<and> choices r = Some [] \<longrightarrow>
      OpenAIService_generate_text hs provider a w =
        (Inl (HTTPException 500 ''Error generating text: list index out of range''), w')) \<and>
   (OpenAIUtils_translate_text hs provider text lang mdl w = (Inr r, w') \<and> choices r = Some [] \<longrightarrow>
      OpenAIService_translate_text hs provider text lang mdl w =
        (Inl (HTTPException 500 ''Error translating text: list index out of range''), w')) \<and>
   (OpenAIUtils_complete_code hs provider a w = (Inr r, w') \<and> choices r = Some [] \<longrightarrow>
      OpenAIService_complete_code hs provider a w =
        (Inl (HTTPException 500 ''Error completing code: list index out of range''), w'))"
proof (intro conjI impI)
  assume h: "OpenAIUtils_generate_text hs provider a w = (Inr r, w') \<and> choices r = Some []"
  from service_generate_text_extraction_raises [OF conjunct1 [OF h] text_extraction_empty [OF conjunct2 [OF h]]]
  show "OpenAIService_generate_text hs provider a w =
        (Inl (HTTPException 500 ''Error generating text: list index out of range''), w')"
    by simp
next
  assume h: "OpenAIUtils_translate_text hs provider text lang mdl w = (Inr r, w') \<and> choices r = Some []"
  from service_translate_text_extraction_raises [OF conjunct1 [OF h] content_extraction_empty [OF conjunct2 [OF h]]]
  show "OpenAIService_translate_text hs provider text lang mdl w =
        (Inl (HTTPException 500 ''Error translating text: list index out of range''), w')"
    by simp
next
  assume h: "OpenAIUtils_complete_code hs provider a w = (Inr r, w') \<and> choices r = Some []"
  from service_complete_code_extraction_raises [OF conjunct1 [OF h] text_extraction_empty [OF conjunct2 [OF h]]]
  show "OpenAIService_complete_code hs provider a w =
        (Inl (HTTPException 500 ''Error completing code: list index out of range''), w')"
    by simp
qed

theorem empty_choices_fail_with_generic_500_witness:
  "OpenAIService_generate_text starlette_str (returning empty_response)
      (generate_text_defaults ''Write a short sentence.'') () =
     (Inl (HTTPException 500 ''Error generating text: list index out of range''), ()) \<and>
   OpenAIService_translate_text starlette_str (returning empty_response)
      ''This is a translation.'' ''fr'' translate_text_default_model () =
     (Inl (HTTPException 500 ''Error translating text: list index out of range''), ()) \<and>
   OpenAIService_complete_code starlette_str (returning empty_response)
      (complete_code_defaults ''print('') () =
     (Inl (HTTPException 500 ''Error completing code: list index out of range''), ())"
proof -
  note t = empty_choices_fail_with_generic_500
    [of starlette_str "returning empty_response" _ "()" empty_response "()"]
  from t [THEN conjunct1, THEN mp,
          OF conjI [OF utils_generate_text_returning choices_empty_response]]
    t [THEN conjunct2, THEN conjunct1, THEN mp,
          OF conjI [OF utils_translate_text_returning choices_empty_response]]
    t [THEN conjunct2, THEN conjunct2, THEN mp,
          OF conjI [OF utils_complete_code_returning choices_empty_response]]
  show ?thesis by (intro conjI)
qed

text \<open>
  C8. Every failure inside a service operation, whether the adapter call raises or the
  extraction from a returned response raises, leaves the operation as an
  \<^verbatim>\<open>HTTPException\<close> of status 500 whose detail is the operation's prefix followed by
  \<^verbatim>\<open>str(e)\<close> of the exception caught; the result is never a dictionary then. The
  provider is called exactly once, whatever it answers: nothing is retried.
\<close>

theorem every_failure_is_raised_as_500_with_the_exception_text:
  "(OpenAIUtils_generate_text hs provider a w = (Inl e, w') \<longrightarrow>
      OpenAIService_generate_text hs provider a w =
        (Inl (HTTPException 500 (''Error generating text: '' @ py_str hs e)), w')) \<and>
   (OpenAIUtils_generate_text hs provider a w = (Inr r, w') \<and> response_choices_0_text r = Inl e \<longrightarrow>
      OpenAIService_generate_text hs provider a w =
        (Inl (HTTPException 500 (''Error generating text: '' @ py_str hs e)), w')) \<and>
   snd (OpenAIService_generate_text hs (logging f) a seen) = seen @ [completion_call a] \<and>
   (OpenAIUtils_translate_text hs provider text lang mdl w = (Inl e, w') \<longrightarrow>
      OpenAIService_translate_text hs provider text lang mdl w =
        (Inl (HTTPException 500 (''Error translating text: '' @ py_str hs e)), w')) \<and>
   (OpenAIUtils_translate_text hs provider text lang mdl w = (Inr r, w') \<and>
      response_choices_0_message_content r = Inl e \<longrightarrow>
      OpenAIService_translate_text hs provider text lang mdl w =
        (Inl (HTTPException 500 (''Error translating text: '' @ py_str hs e)), w')) \<and>
   snd (OpenAIService_translate_text hs (logging f) text lang mdl seen) =
     seen @ [translate_call text lang mdl] \<and>
   (OpenAIUtils_complete_code hs provider a w = (Inl e, w') \<longrightarrow>
      OpenAIService_complete_code hs provider a w =
        (Inl (HTTPException 500 (''Error completing code: '' @ py_str hs e)), w')) \<and>
   (OpenAIUtils_complete_code hs provider a w = (Inr r, w') \<and> response_choices_0_text r = Inl e \<longrightarrow>
      OpenAIService_complete_code hs provider a w =
        (Inl (HTTPException 500 (''Error completing code: '' @ py_str hs e)), w')) \<and>
   snd (OpenAIService_complete_code hs (logging f) a seen) = seen @ [completion_call a]"
proof (intro conjI impI)
  show "snd (OpenAIService_generate_text hs (logging f) a seen) = seen @ [completion_call a]"
    by (rule service_generate_text_logging)
  show "snd (OpenAIService_translate_text hs (logging f) text lang mdl seen) =
     seen @ [translate_call text lang mdl]"
    by (rule service_translate_text_logging)
  show "snd (OpenAIService_complete_code hs (logging f) a seen) = seen @ [completion_call a]"
    by (rule service_complete_code_logging)
qed (simp_all add: service_generate_text_adapter_raises service_generate_text_extraction_raises
      service_translate_text_adapter_raises service_translate_text_extraction_raises
      service_complete_code_adapter_raises service_complete_code_extraction_raises)

theorem every_failure_is_raised_as_500_with_the_exception_text_witness:
  "OpenAIService_generate_text starlette_str (raising (APIError ''quota exceeded''))
      (generate_text_defaults ''Write a short sentence.'') () =
     (Inl (HTTPException 500 ''Error generating text: 500: OpenAI API Error: quota exceeded''), ()) \<and>
   OpenAIService_generate_text starlette_str (returning empty_response)
      (generate_text_defaults ''Write a short sentence.'') () =
     (Inl (HTTPException 500 ''Error generating text: list index out of range''), ()) \<and>
   OpenAIService_translate_text starlette_str (raising (OtherException ''connection reset''))
      ''This is a translation.'' ''fr'' translate_text_default_model () =
     (Inl (HTTPException 500
        ''Error translating text: 500: Error translating text: connection reset''), ()) \<and>
   OpenAIService_translate_text starlette_str (returning empty_response)
      ''This is a translation.'' ''fr'' translate_text_default_model () =
     (Inl (HTTPException 500 ''Error translating text: list index out of range''), ()) \<and>
   OpenAIService_complete_code starlette_str (raising (APIError ''quota exceeded''))
      (complete_code_defaults ''print('') () =
     (Inl (HTTPException 500 ''Error completing code: 500: OpenAI API Error: quota exceeded''), ()) \<and>
   OpenAIService_complete_code starlette_str (returning empty_response)
      (complete_code_defaults ''print('') () =
     (Inl (HTTPException 500 ''Error completing code: list index out of range''), ())"
proof -
  note t = every_failure_is_raised_as_500_with_the_exception_text [where hs = starlette_str]
  note g1 = t [THEN conjunct1, THEN mp, OF utils_generate_text_raising]
  note g2 = t [THEN conjunct2, THEN conjunct1, THEN mp,
      OF conjI [OF utils_generate_text_returning empty_text]]
  note t3 = t [THEN conjunct2, THEN conjunct2, THEN conjunct2]
  note t1 = t3 [THEN conjunct1, THEN mp, OF utils_translate_text_raising]
  note t2 = t3 [THEN conjunct2, THEN conjunct1, THEN mp,
      OF conjI [OF utils_translate_text_returning empty_content]]
  note t6 = t3 [THEN conjunct2, THEN conjunct2, THEN conjunct2]
  note c1 = t6 [THEN conjunct1, THEN mp, OF utils_complete_code_raising]
  note c2 = t6 [THEN conjunct2, THEN conjunct1, THEN mp,
      OF conjI [OF utils_complete_code_returning empty_text]]
  from g1 g2 t1 t2 c1 c2 show ?thesis
    by (simp add: except_detail_def starlette_str_def show_nat.simps)
qed

text \<open>
  C10. The adapter lets no \<^verbatim>\<open>APIError\<close> out, and the extraction raises none, so the
  exception that leaves the \<^verbatim>\<open>try\<close> body of a service operation is never an
  \<^verbatim>\<open>APIError\<close>: the first except clause of the service is never taken. Whenever a
  service operation fails, its error has status 500 and a detail that begins with the
  operation's generic prefix and does not begin with \<^verbatim>\<open>OpenAI API Error:\<close>.
\<close>

theorem service_APIError_clause_is_never_taken:
  "(OpenAIService_generate_text_try hs provider a w = (Inl e, w') \<longrightarrow> \<not> is_APIError e) \<and>
   (OpenAIService_generate_text hs provider a w = (Inl e, w') \<longrightarrow>
      (\<exists>d. e = HTTPException 500 d \<and> prefix ''Error generating text: '' d \<and>
           \<not> prefix ''OpenAI API Error:'' d)) \<and>
   (OpenAIService_translate_text_try hs provider text lang mdl w = (Inl e, w') \<longrightarrow>
      \<not> is_APIError e) \<and>
   (OpenAIService_translate_text hs provider text lang mdl w = (Inl e, w') \<longrightarrow>
      (\<exists>d. e = HTTPException 500 d \<and> prefix ''Error translating text: '' d \<and>
           \<not> prefix ''OpenAI API Error:'' d)) \<and>
   (OpenAIService_complete_code_try hs provider a w = (Inl e, w') \<longrightarrow> \<not> is_APIError e) \<and>
   (OpenAIService_complete_code hs provider a w = (Inl e, w') \<longrightarrow>
      (\<exists>d. e = HTTPException 500 d \<and> prefix ''Error completing code: '' d \<and>
           \<not> prefix ''OpenAI API Error:'' d))"
proof (intro conjI impI)
  assume "OpenAIService_generate_text_try hs provider a w = (Inl e, w')"
  then show "\<not> is_APIError e" by (rule service_generate_text_try_not_APIError)
next
  assume "OpenAIService_translate_text_try hs provider text lang mdl w = (Inl e, w')"
  then show "\<not> is_APIError e" by (rule service_translate_text_try_not_APIError)
next
  assume "OpenAIService_complete_code_try hs provider a w = (Inl e, w')"
  then show "\<not> is_APIError e" by (rule service_complete_code_try_not_APIError)
next
  assume h: "OpenAIService_generate_text hs provider a w = (Inl e, w')"
  show "\<exists>d. e = HTTPException 500 d \<and> prefix ''Error generating text: '' d \<and>
           \<not> prefix ''OpenAI API Error:'' d"
  proof (cases rule: service_generate_text_cases [of hs provider a w])
    case (returns r t v)
    with h show ?thesis by simp
  next
    case (extraction r x v)
    with h have "e = HTTPException 500 (''Error generating text: '' @ py_str hs x)" by simp
    then show ?thesis by simp
  next
    case (adapter x v)
    with h have "e = HTTPException 500 (''Error generating text: '' @ py_str hs x)" by simp
    then show ?thesis by simp
  qed
next
  assume h: "OpenAIService_translate_text hs provider text lang mdl w = (Inl e, w')"
  show "\<exists>d. e = HTTPException 500 d \<and> prefix ''Error translating text: '' d \<and>
           \<not> prefix ''OpenAI API Error:'' d"
  proof (cases rule: service_translate_text_cases [of hs provider "text" lang mdl w])
    case (returns r t v)
    with h show ?thesis by simp
  next
    case (extraction r x v)
    with h have "e = HTTPException 500 (''Error translating text: '' @ py_str hs x)" by simp
    then show ?thesis by simp
  next
    case (adapter x v)
    with h have "e = HTTPException 500 (''Error translating text: '' @ py_str hs x)" by simp
    then show ?thesis by simp
  qed
next
  assume h: "OpenAIService_complete_code hs provider a w = (Inl e, w')"
  show "\<exists>d. e = HTTPException 500 d \<and> prefix ''Error completing code: '' d \<and>
           \<not> prefix ''OpenAI API Error:'' d"
  proof (cases rule: service_complete_code_cases [of hs provider a w])
    case (returns r t v)
    with h show ?thesis by simp
  next
    case (extraction r x v)
    with h have "e = HTTPException 500 (''Error completing code: '' @ py_str hs x)" by simp
    then show ?thesis by simp
  next
    case (adapter x v)
    with h have "e = HTTPException 500 (''Error completing code: '' @ py_str hs x)" by simp
    then show ?thesis by simp
  qed
qed

theorem service_APIError_clause_is_never_taken_witness:
  "\<not> is_APIError (HTTPException 500 ''OpenAI API Error: quota exceeded'') \<and>
   (\<exists>d. HTTPException 500 ''Error generating text: 500: OpenAI API Error: quota exceeded'' =
          HTTPException 500 d \<and>
        prefix ''Error generating text: '' d \<and> \<not> prefix ''OpenAI API Error:'' d) \<and>
   (\<exists>d. HTTPException 500 ''Error translating text: 500: OpenAI API Error: quota exceeded'' =
          HTTPException 500 d \<and>
        prefix ''Error translating text: '' d \<and> \<not> prefix ''OpenAI API Error:'' d) \<and>
   (\<exists>d. HTTPException 500 ''Error completing code: 500: OpenAI API Error: quota exceeded'' =
          HTTPException 500 d \<and>
        prefix ''Error completing code: '' d \<and> \<not> prefix ''OpenAI API Error:'' d)"
proof -
  let ?p = "raising (APIError ''quota exceeded'')"
  let ?a = "generate_text_defaults ''Write a short sentence.''"
  note t = service_APIError_clause_is_never_taken [where hs = starlette_str and provider = ?p]
  have e: "except_detail starlette_str label (APIError ''quota exceeded'') =
      ''OpenAI API Error: quota exceeded''" for label
    by (simp add: except_detail_def)
  have s: "starlette_str 500 d = ''500: '' @ d" for d
    by (simp add: starlette_str_def show_nat.simps)
  have g1: "OpenAIService_generate_text_try starlette_str ?p ?a () =
      (Inl (HTTPException 500 ''OpenAI API Error: quota exceeded''), ())"
    by (simp add: try_generate_text_raising e)
  have g2: "OpenAIService_generate_text starlette_str ?p ?a () =
      (Inl (HTTPException 500 ''Error generating text: 500: OpenAI API Error: quota exceeded''), ())"
    by (simp add: service_generate_text_raising e s)
  have t1: "OpenAIService_translate_text_try starlette_str ?p ''This is a translation.'' ''fr''
      translate_text_default_model () =
      (Inl (HTTPException 500 ''OpenAI API Error: quota exceeded''), ())"
    by (simp add: try_translate_text_raising e)
  have t2: "OpenAIService_translate_text starlette_str ?p ''This is a translation.'' ''fr''
      translate_text_default_model () =
      (Inl (HTTPException 500 ''Error translating text: 500: OpenAI API Error: quota exceeded''), ())"
    by (simp add: service_translate_text_raising e s)
  have c1: "OpenAIService_complete_code_try starlette_str ?p ?a () =
      (Inl (HTTPException 500 ''OpenAI API Error: quota exceeded''), ())"
    by (simp add: try_complete_code_raising e)
  have c2: "OpenAIService_complete_code starlette_str ?p ?a () =
      (Inl (HTTPException 500 ''Error completing code: 500: OpenAI API Error: quota exceeded''), ())"
    by (simp add: service_complete_code_raising e s)
  note u = t [THEN conjunct2, THEN conjunct2]
  note v = u [THEN conjunct2, THEN conjunct2]
  from t [THEN conjunct1, THEN mp, OF g1]
    t [THEN conjunct2, THEN conjunct1, THEN mp, OF g2]
    u [THEN conjunct1, THEN mp, OF t1]
    u [THEN conjunct2, THEN conjunct1, THEN mp, OF t2]
    v [THEN conjunct1, THEN mp, OF c1]
    v [THEN conjunct2, THEN mp, OF c2]
  show ?thesis by (intro conjI)
qed

text \<open>
  C1, evaluated where the provider raises \<^verbatim>\<open>APIError("quota exceeded")\<close>. The adapter
  raises \<^verbatim>\<open>HTTPException(500, "OpenAI API Error: quota exceeded")\<close>. The service
  catches it in its \<^verbatim>\<open>except Exception\<close> clause: the detail it raises begins with
  \<^verbatim>\<open>Error generating text: \<close>, followed by what the framework prints for the
  adapter's exception (status and detail in current releases, nothing in those without
  \<^verbatim>\<open>__str__\<close>).
\<close>

theorem service_generate_text_on_APIError:
  "OpenAIUtils_generate_text starlette_str (raising (APIError ''quota exceeded''))
      (generate_text_defaults ''Write a short sentence.'') () =
     (Inl (HTTPException 500 ''OpenAI API Error: quota exceeded''), ()) \<and>
   OpenAIService_generate_text starlette_str (raising (APIError ''quota exceeded''))
      (generate_text_defaults ''Write a short sentence.'') () =
     (Inl (HTTPException 500 ''Error generating text: 500: OpenAI API Error: quota exceeded''), ()) \<and>
   OpenAIService_generate_text legacy_str (raising (APIError ''quota exceeded''))
      (generate_text_defaults ''Write a short sentence.'') () =
     (Inl (HTTPException 500 ''Error generating text: ''), ())"
  by (simp add: utils_generate_text_raising service_generate_text_raising except_detail_def
      starlette_str_def legacy_str_def show_nat.simps)

section \<open>The outbound call\<close>

lemma route_generate_text_world:
  "snd (route_generate_text hs provider a w) = snd (OpenAIService_generate_text hs provider a w)"
  by (auto simp: route_generate_text_def split: prod.splits sum.splits)

lemma route_complete_code_world:
  "snd (route_complete_code hs provider a w) = snd (OpenAIService_complete_code hs provider a w)"
  by (auto simp: route_complete_code_def split: prod.splits sum.splits)

lemma route_translate_text_world:
  "snd (route_translate_text hs provider text lang mdl w) =
   snd (OpenAIService_translate_text hs provider text lang mdl w)"
  by (auto simp: route_translate_text_def split: prod.splits sum.splits)

lemma opt_kwarg_simps:
  "opt_kwarg k None = KNone" "opt_kwarg k (Some x) = k x"
  by (simp_all add: opt_kwarg_def)

text \<open>
  What a route handler does when its service operation raises: the exception that leaves
  the handler is the \<^verbatim>\<open>NameError\<close> of its first except clause.
\<close>

lemma route_generate_text_when_service_raises:
  "OpenAIService_generate_text hs provider a w = (Inl e, w') \<Longrightarrow>
   route_generate_text hs provider a w = (Inl (NameError openai_not_defined), w')"
  by (simp add: route_generate_text_def)

lemma route_translate_text_when_service_raises:
  "OpenAIService_translate_text hs provider text lang mdl w = (Inl e, w') \<Longrightarrow>
   route_translate_text hs provider text lang mdl w = (Inl (NameError openai_not_defined), w')"
  by (simp add: route_translate_text_def)

lemma route_complete_code_when_service_raises:
  "OpenAIService_complete_code hs provider a w = (Inl e, w') \<Longrightarrow>
   route_complete_code hs provider a w = (Inl (NameError openai_not_defined), w')"
  by (simp add: route_complete_code_def)

lemma route_generate_text_when_service_returns:
  "OpenAIService_generate_text hs provider a w = (Inr d, w') \<Longrightarrow>
   route_generate_text hs provider a w = (Inr \<lparr>status_code = 200, body = d\<rparr>, w')"
  by (simp add: route_generate_text_def)

text \<open>
  C7. For every argument tuple the adapter's \<^verbatim>\<open>generate_text\<close> and
  \<^verbatim>\<open>complete_code\<close> issue the same single outbound call. Whatever the provider
  answers to it, both return the same response, or both raise a 500
  \<^verbatim>\<open>HTTPException\<close>: with the same detail when the provider raised \<^verbatim>\<open>APIError\<close>, and
  otherwise with details that differ in the operation's prefix only. Their default
  arguments differ in the model alone.
\<close>

theorem complete_code_is_generate_text_up_to_label_and_default_model:
  "snd (OpenAIUtils_generate_text hs (logging f) a seen) = seen @ [completion_call a] \<and>
   snd (OpenAIUtils_complete_code hs (logging f) a seen) = seen @ [completion_call a] \<and>
   (case provider (completion_call a) w of
      (Inr r, w') \<Rightarrow>
        OpenAIUtils_generate_text hs provider a w = (Inr r, w') \<and>
        OpenAIUtils_complete_code hs provider a w = (Inr r, w')
    | (Inl e, w') \<Rightarrow>
        if is_APIError e
        then OpenAIUtils_generate_text hs provider a w =
               (Inl (HTTPException 500 (''OpenAI API Error: '' @ py_str hs e)), w') \<and>
             OpenAIUtils_complete_code hs provider a w =
               (Inl (HTTPException 500 (''OpenAI API Error: '' @ py_str hs e)), w')
        else OpenAIUtils_generate_text hs provider a w =
               (Inl (HTTPException 500 (''Error generating text: '' @ py_str hs e)), w') \<and>
             OpenAIUtils_complete_code hs provider a w =
               (Inl (HTTPException 500 (''Error completing code: '' @ py_str hs e)), w')) \<and>
   complete_code_defaults p = (generate_text_defaults p)\<lparr>model := ''code-davinci-002''\<rparr> \<and>
   model (generate_text_defaults p) = ''text-davinci-003''"
proof (intro conjI)
  show "snd (OpenAIUtils_generate_text hs (logging f) a seen) = seen @ [completion_call a]"
    by (simp add: utils_generate_text_world logging_def)
  show "snd (OpenAIUtils_complete_code hs (logging f) a seen) = seen @ [completion_call a]"
    by (simp add: utils_complete_code_world logging_def)
  show "complete_code_defaults p = (generate_text_defaults p)\<lparr>model := ''code-davinci-002''\<rparr>"
    by (simp add: complete_code_defaults_def generate_text_defaults_def)
  show "model (generate_text_defaults p) = ''text-davinci-003''"
    by (simp add: generate_text_defaults_def)
  show "case provider (completion_call a) w of
      (Inr r, w') \<Rightarrow>
        OpenAIUtils_generate_text hs provider a w = (Inr r, w') \<and>
        OpenAIUtils_complete_code hs provider a w = (Inr r, w')
    | (Inl e, w') \<Rightarrow>
        if is_APIError e
        then OpenAIUtils_generate_text hs provider a w =
               (Inl (HTTPException 500 (''OpenAI API Error: '' @ py_str hs e)), w') \<and>
             OpenAIUtils_complete_code hs provider a w =
               (Inl (HTTPException 500 (''OpenAI API Error: '' @ py_str hs e)), w')
        else OpenAIUtils_generate_text hs provider a w =
               (Inl (HTTPException 500 (''Error generating text: '' @ py_str hs e)), w') \<and>
             OpenAIUtils_complete_code hs provider a w =
               (Inl (HTTPException 500 (''Error completing code: '' @ py_str hs e)), w')"
  proof (cases "provider (completion_call a) w")
    case (Pair out w')
    show ?thesis
    proof (cases out)
      case (Inl e)
      with Pair show ?thesis
        by (simp add: utils_generate_text_Inl utils_complete_code_Inl except_detail_def)
    next
      case (Inr r)
      with Pair show ?thesis
        by (simp add: utils_generate_text_Inr utils_complete_code_Inr)
    qed
  qed
qed

text \<open>
  C2, as stated, fails: with \<^verbatim>\<open>max_tokens\<close> unset, the outbound call of the adapter's
  \<^verbatim>\<open>generate_text\<close> still has the keyword \<^verbatim>\<open>max_tokens\<close>, with the value
  \<^verbatim>\<open>None\<close>.
\<close>

theorem unset_max_tokens_is_sent_as_None:
  "max_tokens (generate_text_defaults ''Write a short sentence.'') = None \<and>
   map_of (call_kwargs (last (snd (OpenAIUtils_generate_text starlette_str
       (logging (\<lambda>c. Inr example_response))
       (generate_text_defaults ''Write a short sentence.'') [])))) ''max_tokens'' = Some KNone"
  by (simp add: utils_generate_text_world logging_def completion_call_def
      generate_text_defaults_def opt_kwarg_simps)

text \<open>
  C2, amended. From the route handler down to the provider, \<^verbatim>\<open>generate_text\<close> and
  \<^verbatim>\<open>complete_code\<close> issue one outbound call that carries all eight keywords: each of
  \<^verbatim>\<open>max_tokens\<close>, \<^verbatim>\<open>top_p\<close> and \<^verbatim>\<open>stop\<close> with the caller's value when the
  caller set it, and with the explicit value \<^verbatim>\<open>None\<close> when the caller left it
  unset. The service and the adapter, called directly, issue the same call.
\<close>

theorem optional_parameters_pass_through_as_given:
  "snd (route_generate_text hs (logging f) a seen) =
     seen @ [Completion_create
               [(''engine'', KStr (model a)),
                (''prompt'', KStr (prompt a)),
                (''max_tokens'', case max_tokens a of None \<Rightarrow> KNone | Some n \<Rightarrow> KInt n),
                (''temperature'', KFloat (temperature a)),
                (''top_p'', case top_p a of None \<Rightarrow> KNone | Some x \<Rightarrow> KFloat x),
                (''frequency_penalty'', KFloat (frequency_penalty a)),
                (''presence_penalty'', KFloat (presence_penalty a)),
                (''stop'', case stop a of None \<Rightarrow> KNone | Some s \<Rightarrow> KStr s)]] \<and>
   snd (route_complete_code hs (logging f) a seen) = snd (route_generate_text hs (logging f) a seen) \<and>
   snd (OpenAIService_generate_text hs (logging f) a seen) =
     snd (route_generate_text hs (logging f) a seen) \<and>
   snd (OpenAIService_complete_code hs (logging f) a seen) =
     snd (route_generate_text hs (logging f) a seen) \<and>
   snd (OpenAIUtils_generate_text hs (logging f) a seen) =
     snd (route_generate_text hs (logging f) a seen) \<and>
   snd (OpenAIUtils_complete_code hs (logging f) a seen) =
     snd (route_generate_text hs (logging f) a seen)"
  by (simp add: route_generate_text_world route_complete_code_world
      service_generate_text_world service_complete_code_world
      utils_generate_text_world utils_complete_code_world
      logging_def completion_call_def opt_kwarg_def)

end
